theory Spec2Isabelle
  imports Main "HOL-Library.Word"
begin

unbundle bit_operations_syntax

section \<open>The EPOS driver of \<^verbatim>\<open>src/src/epos.c\<close>\<close>

text \<open>
  The driver is a state machine over five module-level variables. Two entry points
  change them: \<^verbatim>\<open>write_object\<close>, called by the command issuer, and
  \<^verbatim>\<open>serial_callback\<close>, called by the serial layer. Both are modelled as functions
  from the variables to the variables.

  The serial layer (\<^verbatim>\<open>rtai_serial\<close>) is outside the driver. Every call the driver
  makes to it is appended to \<open>serial_calls\<close>, a history that the C code does not hold
  and that only records what was asked of the serial layer. What the serial layer
  answers is an argument of the modelled function: the value \<^verbatim>\<open>rt_spwrite\<close> returns
  (\<open>num_not_written\<close>) and the byte \<^verbatim>\<open>rt_spread\<close> leaves in \<^verbatim>\<open>ack\<close>.

  The C type \<^verbatim>\<open>int\<close> is modelled by \<open>int\<close>: the driver only compares such values with
  constants, stores the constant 11 and negates the stored length.
\<close>

type_synonym u8 = "8 word"
type_synonym u16 = "16 word"
type_synonym u32 = "32 word"

subsection \<open>Types and variables\<close>

definition MAX_PAYLOAD :: nat where
  "MAX_PAYLOAD = 14"

datatype driver_state_t =
  READY
  | SENDING_OPCODE
  | WAITING_BEGIN_ACK
  | SENDING_DATA
  | WAITING_END_ACK
  | WAITING_RESPONSE_LEN
  | WAITING_RESPONSE_DATA
  | SENDING_RESPONSE_ACK

datatype write_status_t =
  SUCCESS
  | SERIAL_BUF_FULL
  | DRIVER_BUSY
  | UNEXPECTED_ERROR

text \<open>
  A call to the serial layer, with its arguments after the port number:
  \<^verbatim>\<open>rt_spwrite(port, msg, msg_size)\<close> with the bytes \<open>msg\<close> points to,
  \<^verbatim>\<open>rt_spread(port, msg, msg_size)\<close>, \<^verbatim>\<open>rt_spset_thrs(port, rxthrs, txthrs)\<close>.
\<close>

datatype serial_call =
  RT_SPWRITE "u8 list" int
  | RT_SPREAD int
  | RT_SPSET_THRS int int

record epos =
  state :: driver_state_t
  outbound_payload :: "u8 list"
  inbound_payload :: "u8 list"
  outbound_payload_len :: int
  inbound_payload_len :: int
  serial_calls :: "serial_call list"

text \<open>Static storage is zero-initialised: the first enumerator, zero bytes, zero lengths.\<close>

definition epos_initial :: epos where
  "epos_initial =
     \<lparr>state = READY,
      outbound_payload = replicate MAX_PAYLOAD 0,
      inbound_payload = replicate MAX_PAYLOAD 0,
      outbound_payload_len = 0,
      inbound_payload_len = 0,
      serial_calls = []\<rparr>"

subsection \<open>Byte order and copying\<close>

text \<open>
  \<^verbatim>\<open>union {u16 word; u8 bytes[2];} = {__cpu_to_le16(v)}\<close>: the bytes of the union are
  the value's bytes, least significant first, on every host.
\<close>

definition le16_bytes :: "u16 \<Rightarrow> u8 list" where
  "le16_bytes v = [ucast v, ucast (drop_bit 8 v)]"

definition le32_bytes :: "u32 \<Rightarrow> u8 list" where
  "le32_bytes v =
     [ucast v, ucast (drop_bit 8 v), ucast (drop_bit 16 v), ucast (drop_bit 24 v)]"

text \<open>\<^verbatim>\<open>memcpy(dst + off, src, n)\<close>, byte by byte.\<close>

fun memcpy :: "u8 list \<Rightarrow> nat \<Rightarrow> u8 list \<Rightarrow> nat \<Rightarrow> u8 list" where
  "memcpy dst off src 0 = dst"
| "memcpy dst off src (Suc n) = (memcpy dst off src n)[off + n := src ! n]"

subsection \<open>The checksum of \<^verbatim>\<open>linux/crc-ccitt.h\<close>\<close>

text \<open>
  Modelled from the spec: \<^verbatim>\<open>crc_ccitt_byte\<close>, \<^verbatim>\<open>crc_ccitt\<close> and
  \<^verbatim>\<open>crc_ccitt_table\<close> belong to the kernel header \<^verbatim>\<open>linux/crc-ccitt.h\<close>, which is
  not under \<^verbatim>\<open>src/\<close>. The spec names the checksum CRC-CCITT as used by the standard
  CCITT table, computed incrementally from a seed. The kernel's table holds, for each
  byte, the result of eight shift steps of the reflected polynomial
  \<open>x^16 + x^12 + x^5 + 1\<close> (\<^verbatim>\<open>0x8408\<close>); one byte is folded in by
  \<^verbatim>\<open>(crc >> 8) ^ crc_ccitt_table[(crc ^ c) & 0xff]\<close>, and a buffer byte after byte.
\<close>

definition crc_ccitt_shift :: "u16 \<Rightarrow> u16" where
  "crc_ccitt_shift v = (if bit v 0 then drop_bit 1 v XOR 0x8408 else drop_bit 1 v)"

definition crc_ccitt_table :: "nat \<Rightarrow> u16" where
  "crc_ccitt_table i = (crc_ccitt_shift ^^ 8) (of_nat i)"

definition crc_ccitt_byte :: "u16 \<Rightarrow> u8 \<Rightarrow> u16" where
  "crc_ccitt_byte crc c =
     drop_bit 8 crc XOR crc_ccitt_table (unat ((crc XOR ucast c) AND 0xff))"

definition crc_ccitt :: "u16 \<Rightarrow> u8 list \<Rightarrow> nat \<Rightarrow> u16" where
  "crc_ccitt crc buffer len = foldl crc_ccitt_byte crc (take len buffer)"

subsection \<open>The driver's functions\<close>

text \<open>
  \<^verbatim>\<open>send_opcode\<close>: one byte is handed to \<^verbatim>\<open>rt_spwrite\<close>, which answers with the
  number of bytes it did not take.
\<close>

definition send_opcode :: "int \<Rightarrow> u8 \<Rightarrow> epos \<Rightarrow> write_status_t \<times> epos" where
  "send_opcode num_not_written opcode st =
     (let st1 = st\<lparr>serial_calls := serial_calls st @ [RT_SPWRITE [opcode] 1]\<rparr>
      in if num_not_written = 0 then (SUCCESS, st1\<lparr>state := SENDING_OPCODE\<rparr>)
         else if num_not_written = 1 then (SERIAL_BUF_FULL, st1)
         else (UNEXPECTED_ERROR, st1))"

text \<open>
  \<^verbatim>\<open>send_payload\<close>: the transmit threshold is set to the payload length and the
  whole outbound array is handed to \<^verbatim>\<open>rt_spwrite\<close> with the negated length.
\<close>

definition send_payload :: "int \<Rightarrow> epos \<Rightarrow> epos" where
  "send_payload num_not_written st =
     (let st1 = st\<lparr>serial_calls := serial_calls st @
                     [RT_SPSET_THRS 1 (outbound_payload_len st),
                      RT_SPWRITE (outbound_payload st) (- outbound_payload_len st)]\<rparr>
      in if num_not_written \<noteq> 0 then st1\<lparr>state := READY\<rparr>
         else st1\<lparr>state := SENDING_DATA\<rparr>)"

text \<open>
  \<^verbatim>\<open>read_begin_ack\<close>: \<open>ack\<close> is the content of the local \<^verbatim>\<open>char ack\<close> after
  \<^verbatim>\<open>rt_spread\<close>; \<^verbatim>\<open>'O'\<close> is \<^verbatim>\<open>0x4F\<close>.
\<close>

definition read_begin_ack :: "u8 \<Rightarrow> int \<Rightarrow> epos \<Rightarrow> epos" where
  "read_begin_ack ack num_not_written st =
     (let st1 = st\<lparr>serial_calls := serial_calls st @ [RT_SPREAD 1]\<rparr>
      in if ack = 0x4F then send_payload num_not_written st1
         else st1\<lparr>state := READY\<rparr>)"

text \<open>
  \<^verbatim>\<open>serial_callback(rxavail, txfree)\<close>. The first two arguments are the answers of
  the serial layer to the calls the callback may make.
\<close>

definition serial_callback :: "u8 \<Rightarrow> int \<Rightarrow> int \<Rightarrow> int \<Rightarrow> epos \<Rightarrow> epos" where
  "serial_callback ack num_not_written rxavail txfree st =
     (case state st of
        READY \<Rightarrow> st
      | SENDING_OPCODE \<Rightarrow>
          if txfree = int MAX_PAYLOAD then st\<lparr>state := WAITING_BEGIN_ACK\<rparr> else st
      | WAITING_BEGIN_ACK \<Rightarrow>
          if rxavail = 1 then read_begin_ack ack num_not_written st else st
      | SENDING_DATA \<Rightarrow>
          if txfree = int MAX_PAYLOAD then st\<lparr>state := WAITING_END_ACK\<rparr> else st
      | WAITING_END_ACK \<Rightarrow> st
      | WAITING_RESPONSE_LEN \<Rightarrow> st
      | WAITING_RESPONSE_DATA \<Rightarrow> st
      | SENDING_RESPONSE_ACK \<Rightarrow> st)"

text \<open>
  \<^verbatim>\<open>write_object(index, subindex, nodeid, data)\<close>. The first argument is the answer
  of \<^verbatim>\<open>rt_spwrite\<close> to the opcode byte.
\<close>

definition write_object ::
  "int \<Rightarrow> u16 \<Rightarrow> u8 \<Rightarrow> u8 \<Rightarrow> u32 \<Rightarrow> epos \<Rightarrow> write_status_t \<times> epos" where
  "write_object num_not_written index subindex nodeid data st =
     (let index_union = le16_bytes index;
          data_union = le32_bytes data;
          opcode = 0x11
      in if state st \<noteq> READY then (DRIVER_BUSY, st)
         else
           (case send_opcode num_not_written opcode st of
              (stat, st1) \<Rightarrow>
                if stat \<noteq> SUCCESS then (stat, st1)
                else
                  (let p0 = (outbound_payload st1)[0 := 3];
                       p1 = memcpy p0 1 index_union 2;
                       p3 = p1[3 := subindex];
                       p4 = p3[4 := nodeid];
                       p5 = memcpy p4 5 data_union 4;
                       crc0 = crc_ccitt_byte 0 opcode;
                       crc = le16_bytes (crc_ccitt crc0 p5 9);
                       p9 = memcpy p5 9 crc 2
                   in (SUCCESS, st1\<lparr>outbound_payload := p9,
                                     outbound_payload_len := 11\<rparr>))))"

subsection \<open>Sequences of calls\<close>

text \<open>
  One entry into the driver: a command with the serial layer's answer to it, or a
  transport event with the serial layer's answers to it.
\<close>

datatype entry =
  Write_object int u16 u8 u8 u32
  | Serial_callback u8 int int int

fun enter :: "epos \<Rightarrow> entry \<Rightarrow> epos" where
  "enter st (Write_object nw index subindex nodeid data) =
     snd (write_object nw index subindex nodeid data st)"
| "enter st (Serial_callback ack nw rxavail txfree) =
     serial_callback ack nw rxavail txfree st"

definition run :: "epos \<Rightarrow> entry list \<Rightarrow> epos" where
  "run st es = foldl enter st es"

subsection \<open>Reference points\<close>

text \<open>The states the code assigns or leaves: an entry never leaves this set.\<close>

definition assigned_states :: "driver_state_t set" where
  "assigned_states = {READY, SENDING_OPCODE, WAITING_BEGIN_ACK, SENDING_DATA, WAITING_END_ACK}"

text \<open>
  The driver after the scripted command has been admitted and its opcode sent: it waits
  for the begin acknowledgment and its outbound array holds the frame.
\<close>

definition awaiting_begin_ack :: epos where
  "awaiting_begin_ack =
     \<lparr>state = WAITING_BEGIN_ACK,
      outbound_payload = [3, 0x31, 0x20, 0, 1, 0x64, 0, 0, 0, 0x8A, 0xC7, 0, 0, 0],
      inbound_payload = replicate MAX_PAYLOAD 0,
      outbound_payload_len = 11,
      inbound_payload_len = 0,
      serial_calls = [RT_SPWRITE [0x11] 1]\<rparr>"

text \<open>The driver after the whole scripted write: it waits for the end acknowledgment.\<close>

definition awaiting_end_ack :: epos where
  "awaiting_end_ack =
     \<lparr>state = WAITING_END_ACK,
      outbound_payload = [3, 0x31, 0x20, 0, 1, 0x64, 0, 0, 0, 0x8A, 0xC7, 0, 0, 0],
      inbound_payload = replicate MAX_PAYLOAD 0,
      outbound_payload_len = 11,
      inbound_payload_len = 0,
      serial_calls =
        [RT_SPWRITE [0x11] 1, RT_SPREAD 1, RT_SPSET_THRS 1 11,
         RT_SPWRITE [3, 0x31, 0x20, 0, 1, 0x64, 0, 0, 0, 0x8A, 0xC7, 0, 0, 0] (- 11)]\<rparr>"

section \<open>Properties\<close>

subsection \<open>Auxiliary facts\<close>

lemma memcpy_2: "memcpy dst off src 2 = dst[off := src ! 0, off + 1 := src ! 1]"
  by (simp add: numeral_2_eq_2)

lemma memcpy_4:
  "memcpy dst off src 4 =
     dst[off := src ! 0, off + 1 := src ! 1, off + 2 := src ! 2, off + 3 := src ! 3]"
  by (simp add: eval_nat_numeral)

lemma crc_ccitt_opcode_first:
  "crc_ccitt (crc_ccitt_byte crc opcode) buffer n =
     crc_ccitt crc (opcode # take n buffer) (Suc n)"
  by (simp add: crc_ccitt_def)

lemma take_11_nth:
  assumes "11 \<le> length xs"
  shows "take 11 xs =
    [xs ! 0, xs ! 1, xs ! 2, xs ! 3, xs ! 4, xs ! 5, xs ! 6, xs ! 7, xs ! 8, xs ! 9, xs ! 10]"
proof -
  from assms have "xs \<noteq> []" by auto
  with assms show ?thesis
    by (simp add: eval_nat_numeral take_Suc_conv_app_nth)
qed

lemma take_9_nth:
  assumes "9 \<le> length xs"
  shows "take 9 xs = [xs ! 0, xs ! 1, xs ! 2, xs ! 3, xs ! 4, xs ! 5, xs ! 6, xs ! 7, xs ! 8]"
proof -
  from assms have "xs \<noteq> []" by auto
  with assms show ?thesis
    by (simp add: eval_nat_numeral take_Suc_conv_app_nth)
qed

text \<open>What an admitted command leaves behind, read off the body of \<open>write_object\<close>.\<close>

lemma write_object_success:
  assumes "write_object nw index subindex nodeid data st = (SUCCESS, st')"
  shows "state st = READY \<and> nw = 0 \<and> state st' = SENDING_OPCODE \<and>
         outbound_payload_len st' = 11 \<and>
         outbound_payload st' =
           (let p0 = (outbound_payload st)[0 := 3];
                p1 = memcpy p0 1 (le16_bytes index) 2;
                p3 = p1[3 := subindex];
                p4 = p3[4 := nodeid];
                p5 = memcpy p4 5 (le32_bytes data) 4
            in memcpy p5 9 (le16_bytes (crc_ccitt (crc_ccitt_byte 0 0x11) p5 9)) 2)"
  using assms
  by (auto simp: write_object_def send_opcode_def Let_def split: if_splits)

lemma write_object_admitted:
  assumes "state st = READY"
  shows "fst (write_object 0 index subindex nodeid data st) = SUCCESS"
    and "state (snd (write_object 0 index subindex nodeid data st)) = SENDING_OPCODE"
  using assms by (simp_all add: write_object_def send_opcode_def Let_def)

lemma state_send_payload:
  "state (send_payload nw st) = (if nw = 0 then SENDING_DATA else READY)"
  by (simp add: send_payload_def Let_def)

lemma state_read_begin_ack:
  "state (read_begin_ack ack nw st) = (if ack = 0x4F \<and> nw = 0 then SENDING_DATA else READY)"
  by (simp add: read_begin_ack_def state_send_payload Let_def)

lemma serial_callback_assigned_states:
  assumes "state st \<in> assigned_states"
  shows "state (serial_callback ack nw rxavail txfree st) \<in> assigned_states"
proof (cases "state st")
  case WAITING_BEGIN_ACK
  then show ?thesis
    by (simp add: serial_callback_def state_read_begin_ack assigned_states_def)
qed (use assms in \<open>simp_all add: serial_callback_def assigned_states_def\<close>)

lemma write_object_assigned_states:
  assumes "state st \<in> assigned_states"
  shows "state (snd (write_object nw index subindex nodeid data st)) \<in> assigned_states"
  using assms
  by (auto simp: assigned_states_def write_object_def send_opcode_def Let_def)

lemma enter_assigned_states:
  assumes "state st \<in> assigned_states"
  shows "state (enter st e) \<in> assigned_states"
  using assms
  by (cases e) (simp_all add: serial_callback_assigned_states write_object_assigned_states)

lemma run_assigned_states:
  assumes "state st \<in> assigned_states"
  shows "state (run st es) \<in> assigned_states"
  using assms unfolding run_def
proof (induction es arbitrary: st)
  case Nil
  then show ?case by simp
next
  case (Cons e es)
  from Cons.prems have "state (enter st e) \<in> assigned_states"
    by (rule enter_assigned_states)
  then show ?case
    using Cons.IH by simp
qed

lemma enter_waiting_end_ack:
  assumes "state st = WAITING_END_ACK"
  shows "enter st e = st"
  using assms by (cases e) (simp_all add: write_object_def serial_callback_def)

lemma run_waiting_end_ack:
  assumes "state st = WAITING_END_ACK"
  shows "run st es = st"
  using assms unfolding run_def
  by (induction es) (simp_all add: enter_waiting_end_ack)

text \<open>The two reference states are reached by the scripted write.\<close>

lemma awaiting_begin_ack_reached:
  "run epos_initial [Write_object 0 0x2031 0 1 100, Serial_callback 0 0 0 14] =
     awaiting_begin_ack"
  by code_simp

lemma awaiting_end_ack_reached:
  "run awaiting_begin_ack [Serial_callback 0x4F 0 1 14, Serial_callback 0 0 0 14] =
     awaiting_end_ack"
  by code_simp

subsection \<open>The frame of an admitted write\<close>

text \<open>
  C1. Whenever \<open>write_object\<close> returns \<open>SUCCESS\<close>, the first 11 bytes of the outbound
  array are the frame: byte 0 is 3, bytes 1-2 the index with the low byte first, byte 3
  the subindex, byte 4 the node id, bytes 5-8 the data with the low byte first, bytes
  9-10 the checksum, low byte first, of the opcode byte \<^verbatim>\<open>0x11\<close> followed by the
  first 9 bytes of the array, from seed 0; the recorded length is 11. The outbound
  array has its declared size of \<open>MAX_PAYLOAD\<close> bytes.
\<close>

theorem write_object_frame:
  assumes "write_object nw index subindex nodeid data st = (SUCCESS, st')"
    and "length (outbound_payload st) = MAX_PAYLOAD"
  shows "take 11 (outbound_payload st') =
           [3, ucast index, ucast (drop_bit 8 index), subindex, nodeid,
            ucast data, ucast (drop_bit 8 data), ucast (drop_bit 16 data),
            ucast (drop_bit 24 data),
            ucast (crc_ccitt 0 (0x11 # take 9 (outbound_payload st')) 10),
            ucast (drop_bit 8 (crc_ccitt 0 (0x11 # take 9 (outbound_payload st')) 10))]
         \<and> outbound_payload_len st' = 11"
proof -
  let ?p = "outbound_payload st'"
  from assms(1) have
    p: "?p = (let p0 = (outbound_payload st)[0 := 3];
                  p1 = memcpy p0 1 (le16_bytes index) 2;
                  p3 = p1[3 := subindex];
                  p4 = p3[4 := nodeid];
                  p5 = memcpy p4 5 (le32_bytes data) 4
              in memcpy p5 9 (le16_bytes (crc_ccitt (crc_ccitt_byte 0 0x11) p5 9)) 2)"
    and len: "outbound_payload_len st' = 11"
    by (auto dest: write_object_success)
  have l: "length ?p = 14"
    using assms(2) by (simp add: p Let_def memcpy_2 memcpy_4 MAX_PAYLOAD_def)
  have "take 11 ?p =
           [3, ucast index, ucast (drop_bit 8 index), subindex, nodeid,
            ucast data, ucast (drop_bit 8 data), ucast (drop_bit 16 data),
            ucast (drop_bit 24 data),
            ucast (crc_ccitt 0 (0x11 # take 9 ?p) 10),
            ucast (drop_bit 8 (crc_ccitt 0 (0x11 # take 9 ?p) 10))]"
    using l
    apply (simp add: take_11_nth take_9_nth)
    apply (simp add: p Let_def memcpy_2 memcpy_4 le16_bytes_def le32_bytes_def
        crc_ccitt_opcode_first take_9_nth)
    apply (simp add: eval_nat_numeral)
    done
  with len show ?thesis by simp
qed

theorem write_object_frame_witness:
  "write_object 0 0x2031 0 1 100 epos_initial =
     (SUCCESS, snd (write_object 0 0x2031 0 1 100 epos_initial))
   \<and> length (outbound_payload epos_initial) = MAX_PAYLOAD
   \<and> take 11 (outbound_payload (snd (write_object 0 0x2031 0 1 100 epos_initial))) =
       [3, 0x31, 0x20, 0, 1, 0x64, 0, 0, 0, 0x8A, 0xC7]
   \<and> outbound_payload_len (snd (write_object 0 0x2031 0 1 100 epos_initial)) = 11"
proof -
  let ?st' = "snd (write_object 0 0x2031 0 1 100 epos_initial)"
  have "fst (write_object 0 0x2031 0 1 100 epos_initial) = SUCCESS"
    by (simp add: write_object_admitted epos_initial_def)
  then have h1: "write_object 0 0x2031 0 1 100 epos_initial = (SUCCESS, ?st')"
    by (simp add: prod_eq_iff)
  have h2: "length (outbound_payload epos_initial) = MAX_PAYLOAD"
    by (simp add: epos_initial_def)
  have crc: "crc_ccitt 0 [0x11, 3, 0x31, 0x20, 0, 1, 0x64, 0, 0, 0] 10 = 0xC78A"
    by code_simp
  from write_object_frame [OF h1 h2]
  have t: "take 11 (outbound_payload ?st') =
           [3, 0x31, 0x20, 0, 1, 0x64, 0, 0, 0,
            ucast (crc_ccitt 0 (0x11 # take 9 (outbound_payload ?st')) 10),
            ucast (drop_bit 8 (crc_ccitt 0 (0x11 # take 9 (outbound_payload ?st')) 10))]"
    and len: "outbound_payload_len ?st' = 11"
    by simp_all
  from t have "take 9 (take 11 (outbound_payload ?st')) = [3, 0x31, 0x20, 0, 1, 0x64, 0, 0, 0]"
    by simp
  then have "take 9 (outbound_payload ?st') = [3, 0x31, 0x20, 0, 1, 0x64, 0, 0, 0]"
    by simp
  with t crc have "take 11 (outbound_payload ?st') = [3, 0x31, 0x20, 0, 1, 0x64, 0, 0, 0, 0x8A, 0xC7]"
    by simp
  with h1 h2 len show ?thesis by simp
qed

subsection \<open>The scripted write\<close>

text \<open>
  C2 (as amended). From \<open>READY\<close>, the command \<open>write_object(0x2031, 0, 1, 100)\<close> is
  admitted when the serial layer takes the opcode byte; after an event with the transmit
  buffer fully free, an event with one byte receivable whose byte is \<^verbatim>\<open>'O'\<close> and
  whose payload the serial layer takes whole, and a further event with the transmit
  buffer fully free, the state is \<open>WAITING_END_ACK\<close>. The code holds no outcome to
  report and does not go back to \<open>READY\<close>.
\<close>

theorem scripted_write_stops_at_end_ack:
  assumes "state st = READY"
  shows "fst (write_object 0 0x2031 0 1 100 st) = SUCCESS
         \<and> state (run st [Write_object 0 0x2031 0 1 100,
                           Serial_callback a1 n1 r1 14,
                           Serial_callback 0x4F 0 1 t2,
                           Serial_callback a3 n3 r3 14]) = WAITING_END_ACK"
  using assms
  by (simp add: run_def write_object_admitted serial_callback_def state_read_begin_ack
      MAX_PAYLOAD_def)

theorem scripted_write_stops_at_end_ack_witness:
  "state epos_initial = READY
   \<and> fst (write_object 0 0x2031 0 1 100 epos_initial) = SUCCESS
   \<and> state (run epos_initial [Write_object 0 0x2031 0 1 100,
                              Serial_callback 0 0 0 14,
                              Serial_callback 0x4F 0 1 14,
                              Serial_callback 0 0 0 14]) = WAITING_END_ACK"
proof -
  have h: "state epos_initial = READY"
    by (simp add: epos_initial_def)
  from scripted_write_stops_at_end_ack [OF h, of 0 0 0 14 0 0 0] h
  show ?thesis by simp
qed

text \<open>
  C2 as stated fails on the zero-initialised driver: the command is admitted and
  after the three events the state is not \<open>READY\<close>.
\<close>

theorem scripted_write_not_ready:
  "fst (write_object 0 0x2031 0 1 100 epos_initial) = SUCCESS
   \<and> state (run epos_initial [Write_object 0 0x2031 0 1 100,
                              Serial_callback 0 0 0 14,
                              Serial_callback 0x4F 0 1 14,
                              Serial_callback 0 0 0 14]) \<noteq> READY"
  by (simp add: run_def write_object_admitted serial_callback_def state_read_begin_ack
      MAX_PAYLOAD_def epos_initial_def)

subsection \<open>A rejected begin acknowledgment\<close>

text \<open>
  C3 (as amended). In \<open>WAITING_BEGIN_ACK\<close>, an event with one byte receivable whose
  byte is not \<^verbatim>\<open>'O'\<close> sets the state to \<open>READY\<close>; both arrays and both lengths stay
  as they were, and the only call to the serial layer is the read of that byte. The
  code holds no outcome to deliver.
\<close>

theorem begin_nack_resets_state_only:
  assumes "state st = WAITING_BEGIN_ACK" and "ack \<noteq> 0x4F"
  shows "state (serial_callback ack nw 1 txfree st) = READY
         \<and> outbound_payload (serial_callback ack nw 1 txfree st) = outbound_payload st
         \<and> inbound_payload (serial_callback ack nw 1 txfree st) = inbound_payload st
         \<and> outbound_payload_len (serial_callback ack nw 1 txfree st) = outbound_payload_len st
         \<and> inbound_payload_len (serial_callback ack nw 1 txfree st) = inbound_payload_len st
         \<and> serial_calls (serial_callback ack nw 1 txfree st) = serial_calls st @ [RT_SPREAD 1]"
  using assms by (simp add: serial_callback_def read_begin_ack_def)

theorem begin_nack_resets_state_only_witness:
  "state awaiting_begin_ack = WAITING_BEGIN_ACK \<and> (0x58 :: u8) \<noteq> 0x4F
   \<and> state (serial_callback 0x58 0 1 14 awaiting_begin_ack) = READY
   \<and> outbound_payload (serial_callback 0x58 0 1 14 awaiting_begin_ack) =
       [3, 0x31, 0x20, 0, 1, 0x64, 0, 0, 0, 0x8A, 0xC7, 0, 0, 0]
   \<and> outbound_payload_len (serial_callback 0x58 0 1 14 awaiting_begin_ack) = 11"
proof -
  have h1: "state awaiting_begin_ack = WAITING_BEGIN_ACK"
    by (simp add: awaiting_begin_ack_def)
  have h2: "(0x58 :: u8) \<noteq> 0x4F"
    by simp
  from begin_nack_resets_state_only [OF h1 h2, of 0 14] h1 h2
  show ?thesis by (simp add: awaiting_begin_ack_def)
qed

text \<open>
  C3 as stated fails on the driver that waits for the begin acknowledgment of the
  scripted write: after the byte \<^verbatim>\<open>'X'\<close> the outbound array is not
  zeroed and its recorded length is not reset.
\<close>

theorem begin_nack_keeps_buffers:
  "state awaiting_begin_ack = WAITING_BEGIN_ACK
   \<and> outbound_payload (serial_callback 0x58 0 1 14 awaiting_begin_ack) \<noteq>
       replicate MAX_PAYLOAD 0
   \<and> outbound_payload_len (serial_callback 0x58 0 1 14 awaiting_begin_ack) \<noteq> 0"
proof -
  have "replicate MAX_PAYLOAD (0 :: u8) = [0, 0, 0, 0, 0, 0, 0, 0, 0, 0, 0, 0, 0, 0]"
    by (simp add: MAX_PAYLOAD_def eval_nat_numeral)
  then show ?thesis
    by (simp add: awaiting_begin_ack_def serial_callback_def read_begin_ack_def)
qed


subsection \<open>Refused commands\<close>

text \<open>
  C4. In every state other than \<open>READY\<close>, \<open>write_object\<close> returns \<open>DRIVER_BUSY\<close> and
  changes nothing: the state, both arrays and both lengths are as before, and no call is
  made to the serial layer.
\<close>

theorem write_object_busy:
  assumes "state st \<noteq> READY"
  shows "write_object nw index subindex nodeid data st = (DRIVER_BUSY, st)"
  using assms by (simp add: write_object_def)

theorem write_object_busy_witness:
  "state awaiting_begin_ack \<noteq> READY
   \<and> write_object 0 0x2031 0 1 100 awaiting_begin_ack = (DRIVER_BUSY, awaiting_begin_ack)"
proof -
  have h: "state awaiting_begin_ack \<noteq> READY"
    by (simp add: awaiting_begin_ack_def)
  from write_object_busy [OF h, of 0 "0x2031" 0 1 100] h
  show ?thesis by simp
qed

text \<open>
  C5. From \<open>READY\<close>, when the serial layer takes none of the one opcode byte
  (\<^verbatim>\<open>rt_spwrite\<close> answers 1), \<open>write_object\<close> returns \<open>SERIAL_BUF_FULL\<close>; the state is
  still \<open>READY\<close> and both arrays and both lengths are as before. The one call made to
  the serial layer is the write of the opcode byte.
\<close>

theorem write_object_serial_buf_full:
  assumes "state st = READY"
  shows "write_object 1 index subindex nodeid data st =
           (SERIAL_BUF_FULL, st\<lparr>serial_calls := serial_calls st @ [RT_SPWRITE [0x11] 1]\<rparr>)
         \<and> state (snd (write_object 1 index subindex nodeid data st)) = READY
         \<and> outbound_payload (snd (write_object 1 index subindex nodeid data st)) =
             outbound_payload st
         \<and> inbound_payload (snd (write_object 1 index subindex nodeid data st)) =
             inbound_payload st
         \<and> outbound_payload_len (snd (write_object 1 index subindex nodeid data st)) =
             outbound_payload_len st
         \<and> inbound_payload_len (snd (write_object 1 index subindex nodeid data st)) =
             inbound_payload_len st"
  using assms by (simp add: write_object_def send_opcode_def)

theorem write_object_serial_buf_full_witness:
  "state epos_initial = READY
   \<and> fst (write_object 1 0x2031 0 1 100 epos_initial) = SERIAL_BUF_FULL
   \<and> state (snd (write_object 1 0x2031 0 1 100 epos_initial)) = READY
   \<and> outbound_payload (snd (write_object 1 0x2031 0 1 100 epos_initial)) =
       replicate MAX_PAYLOAD 0
   \<and> outbound_payload_len (snd (write_object 1 0x2031 0 1 100 epos_initial)) = 0"
proof -
  have h: "state epos_initial = READY"
    by (simp add: epos_initial_def)
  from write_object_serial_buf_full [OF h, of "0x2031" 0 1 100] h
  show ?thesis by (simp add: epos_initial_def)
qed

subsection \<open>The begin acknowledgment\<close>

text \<open>
  C6 (as amended). In \<open>WAITING_BEGIN_ACK\<close>, when the acknowledgment byte is read (one
  byte receivable): for the byte \<^verbatim>\<open>'O'\<close> the payload is submitted to the serial
  layer (the transmit threshold is set and the outbound array handed to
  \<^verbatim>\<open>rt_spwrite\<close>), and the state becomes \<open>SENDING_DATA\<close> when the serial layer takes
  the payload whole and \<open>READY\<close> otherwise; for every other byte nothing is submitted
  after the read and the state becomes \<open>READY\<close>.
\<close>

theorem begin_ack_decoding:
  assumes "state st = WAITING_BEGIN_ACK"
  shows "(ack = 0x4F \<longrightarrow>
            serial_calls (serial_callback ack nw 1 txfree st) =
              serial_calls st @
                [RT_SPREAD 1,
                 RT_SPSET_THRS 1 (outbound_payload_len st),
                 RT_SPWRITE (outbound_payload st) (- outbound_payload_len st)]
            \<and> state (serial_callback ack nw 1 txfree st) =
                (if nw = 0 then SENDING_DATA else READY))
         \<and> (ack \<noteq> 0x4F \<longrightarrow>
            serial_calls (serial_callback ack nw 1 txfree st) =
              serial_calls st @ [RT_SPREAD 1]
            \<and> state (serial_callback ack nw 1 txfree st) = READY)"
  using assms
  by (simp add: serial_callback_def read_begin_ack_def send_payload_def Let_def)

theorem begin_ack_decoding_witness:
  "state awaiting_begin_ack = WAITING_BEGIN_ACK
   \<and> serial_calls (serial_callback 0x4F 0 1 14 awaiting_begin_ack) =
       [RT_SPWRITE [0x11] 1, RT_SPREAD 1, RT_SPSET_THRS 1 11,
        RT_SPWRITE [3, 0x31, 0x20, 0, 1, 0x64, 0, 0, 0, 0x8A, 0xC7, 0, 0, 0] (- 11)]
   \<and> state (serial_callback 0x4F 0 1 14 awaiting_begin_ack) = SENDING_DATA
   \<and> serial_calls (serial_callback 0x58 0 1 14 awaiting_begin_ack) =
       [RT_SPWRITE [0x11] 1, RT_SPREAD 1]
   \<and> state (serial_callback 0x58 0 1 14 awaiting_begin_ack) = READY"
proof -
  have h: "state awaiting_begin_ack = WAITING_BEGIN_ACK"
    by (simp add: awaiting_begin_ack_def)
  from begin_ack_decoding [OF h, of "0x4F" 0 14]
    begin_ack_decoding [OF h, of "0x58" 0 14] h
  show ?thesis by (simp add: awaiting_begin_ack_def)
qed

text \<open>
  C6 as stated fails when the serial layer refuses the payload: the byte \<^verbatim>\<open>'O'\<close> is
  read, the payload is submitted, none of its 11 bytes is taken, and the state is
  \<open>READY\<close>, as after a rejected byte; the transaction has not gone on to \<open>SENDING_DATA\<close>.
\<close>

theorem begin_ack_accepted_payload_refused:
  "state awaiting_begin_ack = WAITING_BEGIN_ACK
   \<and> state (serial_callback 0x4F 11 1 14 awaiting_begin_ack) = READY
   \<and> state (serial_callback 0x4F 11 1 14 awaiting_begin_ack) \<noteq> SENDING_DATA"
  by (simp add: awaiting_begin_ack_def serial_callback_def read_begin_ack_def
      send_payload_def)

subsection \<open>Transmission finished\<close>

text \<open>
  C7. In \<open>SENDING_OPCODE\<close> an event moves the state to \<open>WAITING_BEGIN_ACK\<close> exactly
  when it reports 14 bytes free in the transmit buffer, and changes nothing otherwise;
  in \<open>SENDING_DATA\<close> an event moves the state to \<open>WAITING_END_ACK\<close> exactly when it
  reports 14 bytes free, and changes nothing otherwise.
\<close>

theorem sending_states_advance_on_txfree:
  "(state st = SENDING_OPCODE \<longrightarrow>
      serial_callback ack nw rxavail txfree st =
        (if txfree = 14 then st\<lparr>state := WAITING_BEGIN_ACK\<rparr> else st)
      \<and> (state (serial_callback ack nw rxavail txfree st) = WAITING_BEGIN_ACK
           \<longleftrightarrow> txfree = 14))
   \<and> (state st = SENDING_DATA \<longrightarrow>
      serial_callback ack nw rxavail txfree st =
        (if txfree = 14 then st\<lparr>state := WAITING_END_ACK\<rparr> else st)
      \<and> (state (serial_callback ack nw rxavail txfree st) = WAITING_END_ACK
           \<longleftrightarrow> txfree = 14))"
  by (simp add: serial_callback_def MAX_PAYLOAD_def)

theorem sending_states_advance_on_txfree_witness:
  "state (awaiting_begin_ack\<lparr>state := SENDING_OPCODE\<rparr>) = SENDING_OPCODE
   \<and> state (serial_callback 0 0 0 14 (awaiting_begin_ack\<lparr>state := SENDING_OPCODE\<rparr>)) =
       WAITING_BEGIN_ACK
   \<and> state (serial_callback 0 0 0 13 (awaiting_begin_ack\<lparr>state := SENDING_OPCODE\<rparr>)) =
       SENDING_OPCODE
   \<and> state (awaiting_begin_ack\<lparr>state := SENDING_DATA\<rparr>) = SENDING_DATA
   \<and> state (serial_callback 0 0 0 14 (awaiting_begin_ack\<lparr>state := SENDING_DATA\<rparr>)) =
       WAITING_END_ACK
   \<and> state (serial_callback 0 0 0 13 (awaiting_begin_ack\<lparr>state := SENDING_DATA\<rparr>)) =
       SENDING_DATA"
  using
    sending_states_advance_on_txfree
      [of "awaiting_begin_ack\<lparr>state := SENDING_OPCODE\<rparr>" 0 0 0 14]
    sending_states_advance_on_txfree
      [of "awaiting_begin_ack\<lparr>state := SENDING_OPCODE\<rparr>" 0 0 0 13]
    sending_states_advance_on_txfree
      [of "awaiting_begin_ack\<lparr>state := SENDING_DATA\<rparr>" 0 0 0 14]
    sending_states_advance_on_txfree
      [of "awaiting_begin_ack\<lparr>state := SENDING_DATA\<rparr>" 0 0 0 13]
  by simp

subsection \<open>States never entered\<close>

text \<open>
  C8. From \<open>READY\<close>, no sequence of \<open>write_object\<close> calls and \<open>serial_callback\<close>
  events, whatever the serial layer answers, reaches \<open>WAITING_RESPONSE_LEN\<close>,
  \<open>WAITING_RESPONSE_DATA\<close> or \<open>SENDING_RESPONSE_ACK\<close>. And \<open>WAITING_END_ACK\<close> is
  absorbing: no event delivered there changes the state, nor anything else, and neither
  does any sequence of entries.
\<close>

theorem response_states_unreachable:
  "(state st = READY \<longrightarrow>
      state (run st es) \<notin>
        {WAITING_RESPONSE_LEN, WAITING_RESPONSE_DATA, SENDING_RESPONSE_ACK})
   \<and> (state st = WAITING_END_ACK \<longrightarrow>
      serial_callback ack nw rxavail txfree st = st \<and> run st es = st)"
proof (intro conjI impI)
  assume "state st = READY"
  then have "state st \<in> assigned_states"
    by (simp add: assigned_states_def)
  then have "state (run st es) \<in> assigned_states"
    by (rule run_assigned_states)
  then show "state (run st es) \<notin>
      {WAITING_RESPONSE_LEN, WAITING_RESPONSE_DATA, SENDING_RESPONSE_ACK}"
    by (auto simp: assigned_states_def)
next
  assume "state st = WAITING_END_ACK"
  then show "serial_callback ack nw rxavail txfree st = st"
    by (simp add: serial_callback_def)
next
  assume "state st = WAITING_END_ACK"
  then show "run st es = st"
    by (rule run_waiting_end_ack)
qed

theorem response_states_unreachable_witness:
  "state epos_initial = READY
   \<and> state (run epos_initial [Write_object 0 0x2031 0 1 100, Serial_callback 0 0 0 14,
                              Serial_callback 0x4F 0 1 14, Serial_callback 0 0 0 14,
                              Write_object 0 0x2031 0 1 100, Serial_callback 0x4F 0 1 14])
       \<notin> {WAITING_RESPONSE_LEN, WAITING_RESPONSE_DATA, SENDING_RESPONSE_ACK}
   \<and> state awaiting_end_ack = WAITING_END_ACK
   \<and> serial_callback 0x4F 0 1 14 awaiting_end_ack = awaiting_end_ack
   \<and> run awaiting_end_ack [Write_object 0 0x2031 0 1 100, Serial_callback 0x4F 0 1 14] =
       awaiting_end_ack"
proof -
  have h1: "state epos_initial = READY"
    by (simp add: epos_initial_def)
  have h2: "state awaiting_end_ack = WAITING_END_ACK"
    by (simp add: awaiting_end_ack_def)
  from
    response_states_unreachable
      [of epos_initial
          "[Write_object 0 0x2031 0 1 100, Serial_callback 0 0 0 14,
            Serial_callback 0x4F 0 1 14, Serial_callback 0 0 0 14,
            Write_object 0 0x2031 0 1 100, Serial_callback 0x4F 0 1 14]"]
    response_states_unreachable
      [of awaiting_end_ack
          "[Write_object 0 0x2031 0 1 100, Serial_callback 0x4F 0 1 14]" "0x4F" 0 1 14]
    h1 h2
  show ?thesis by simp
qed

subsection \<open>Sending the payload\<close>

text \<open>
  C9. After \<open>send_payload\<close> the state is \<open>SENDING_DATA\<close> when the serial layer took
  the payload whole (zero bytes not written) and \<open>READY\<close> for every other answer; it is
  never any other state. The payload was offered in one call, with the negated length,
  and the arrays and lengths are as before.
\<close>

theorem send_payload_state:
  "state (send_payload nw st) = (if nw = 0 then SENDING_DATA else READY)
   \<and> state (send_payload nw st) \<in> {SENDING_DATA, READY}
   \<and> outbound_payload (send_payload nw st) = outbound_payload st
   \<and> outbound_payload_len (send_payload nw st) = outbound_payload_len st
   \<and> inbound_payload (send_payload nw st) = inbound_payload st
   \<and> inbound_payload_len (send_payload nw st) = inbound_payload_len st
   \<and> serial_calls (send_payload nw st) =
       serial_calls st @
         [RT_SPSET_THRS 1 (outbound_payload_len st),
          RT_SPWRITE (outbound_payload st) (- outbound_payload_len st)]"
  by (simp add: send_payload_def Let_def)

theorem send_payload_state_witness:
  "state (send_payload 0 awaiting_begin_ack) = SENDING_DATA
   \<and> state (send_payload 4 awaiting_begin_ack) = READY
   \<and> state (send_payload (- 19) awaiting_begin_ack) = READY"
  using send_payload_state [of 0 awaiting_begin_ack]
    send_payload_state [of 4 awaiting_begin_ack]
    send_payload_state [of "- 19" awaiting_begin_ack]
  by simp

subsection \<open>Events while idle\<close>

text \<open>
  C10. In \<open>READY\<close>, \<open>serial_callback\<close> returns at once: the state, both arrays and
  both lengths are as before, and no call is made to the serial layer.
\<close>

theorem serial_callback_ready_noop:
  assumes "state st = READY"
  shows "serial_callback ack nw rxavail txfree st = st"
  using assms by (simp add: serial_callback_def)

theorem serial_callback_ready_noop_witness:
  "state epos_initial = READY \<and> serial_callback 0x4F 0 1 14 epos_initial = epos_initial"
proof -
  have h: "state epos_initial = READY"
    by (simp add: epos_initial_def)
  from serial_callback_ready_noop [OF h, of "0x4F" 0 1 14] h
  show ?thesis by simp
qed

end
